theory Spec2Isabelle
  imports Main "HOL-Library.AList" "HOL-Library.Char_ord" "HOL-Library.List_Lexorder"
begin

section \<open>Formatting verbs used by the package\<close>

text \<open>
  Go strings are byte sequences, modelled as \<^typ>\<open>string\<close>. Go's \<open>int\<close> is modelled as
  \<^typ>\<open>int\<close>: the package never does arithmetic on the integers it carries, it only
  compares them with 0 and prints them; the 64-bit range is written out where a JSON
  number is stored into an \<open>int\<close> field.
\<close>

definition dquote :: char where
  "dquote = CHR 0x22"

definition backslash :: char where
  "backslash = CHR 0x5C"

text \<open>The digit tables are only read at an index below their length.\<close>

definition digit_char :: "nat \<Rightarrow> char" where
  "digit_char d = ''0123456789'' ! d"

function decimal :: "nat \<Rightarrow> string" where
  "decimal n = (if n < 10 then [digit_char n] else decimal (n div 10) @ [digit_char (n mod 10)])"
  by pat_completeness auto
termination
  by (relation "measure id") auto

declare decimal.simps [simp del]

text \<open>The verb \<open>%d\<close> applied to an \<open>int\<close>.\<close>

definition fmt_d :: "int \<Rightarrow> string" where
  "fmt_d i = (if i < 0 then ''-'' @ decimal (nat (- i)) else decimal (nat i))"

text \<open>Reading a digit string back, to say what "decimal string" means.\<close>

definition digit_val :: "char \<Rightarrow> int" where
  "digit_val c = of_char c - 48"

definition is_digit :: "char \<Rightarrow> bool" where
  "is_digit c = (48 \<le> (of_char c :: nat) \<and> (of_char c :: nat) \<le> 57)"

definition dec_val :: "string \<Rightarrow> int" where
  "dec_val s = foldl (\<lambda>a c. 10 * a + digit_val c) 0 s"

text \<open>
  The verb \<open>%q\<close> applied to a string is \<open>strconv.Quote\<close>: a double quote, the
  string rune by rune, a double quote. An ASCII byte is one rune: the double quote and
  the backslash get a backslash, printable bytes stay, the seven control characters with
  a letter escape use it, and the other control bytes become \<open>\x\<close> and two lower-case hex
  digits. A byte from 0x80 up never shares a rune with an ASCII byte, so a maximal run of
  such bytes is rendered on its own; how depends on UTF-8 decoding and on the Unicode
  tables of the Go library, and is the parameter \<open>hi\<close>.
\<close>

definition lowerhex :: "nat \<Rightarrow> char" where
  "lowerhex d = ''0123456789abcdef'' ! d"

definition is_ascii :: "char \<Rightarrow> bool" where
  "is_ascii c = ((of_char c :: nat) < 128)"

definition escape_ascii :: "char \<Rightarrow> string" where
  "escape_ascii c =
     (let n = (of_char c :: nat) in
      if c = dquote \<or> c = backslash then [backslash, c]
      else if 32 \<le> n \<and> n < 127 then [c]
      else if n = 7 then [backslash, CHR ''a'']
      else if n = 8 then [backslash, CHR ''b'']
      else if n = 12 then [backslash, CHR ''f'']
      else if n = 10 then [backslash, CHR ''n'']
      else if n = 13 then [backslash, CHR ''r'']
      else if n = 9 then [backslash, CHR ''t'']
      else if n = 11 then [backslash, CHR ''v'']
      else [backslash, CHR ''x'', lowerhex (n div 16), lowerhex (n mod 16)])"

function quote_body :: "(string \<Rightarrow> string) \<Rightarrow> string \<Rightarrow> string" where
  "quote_body hi [] = []"
| "quote_body hi (c # cs) =
     (if is_ascii c then escape_ascii c @ quote_body hi cs
      else hi (c # takeWhile (\<lambda>b. \<not> is_ascii b) cs)
           @ quote_body hi (dropWhile (\<lambda>b. \<not> is_ascii b) cs))"
  by pat_completeness auto
termination
  by (relation "measure (\<lambda>(hi, s). length s)") (auto simp: length_dropWhile_le le_imp_less_Suc)

definition strconv_Quote :: "(string \<Rightarrow> string) \<Rightarrow> string \<Rightarrow> string" where
  "strconv_Quote hi s = [dquote] @ quote_body hi s @ [dquote]"

text \<open>A string that \<open>%q\<close> only wraps in quotes: printable ASCII without quote and backslash.\<close>

definition plain_char :: "char \<Rightarrow> bool" where
  "plain_char c = (32 \<le> (of_char c :: nat) \<and> (of_char c :: nat) < 127 \<and> c \<noteq> dquote \<and> c \<noteq> backslash)"

section \<open>Errors\<close>

record ErrorResponse =
  Cause :: "string list option"
  Code :: int
  Info :: string
  Internal :: bool
  Message :: string
  Time :: int

datatype json_error =
    SyntaxError
  | UnmarshalTypeError string string

text \<open>
  \<open>ErrorString\<close> is the error made by \<open>errors.New\<close> and \<open>fmt.Errorf\<close> (its text),
  \<open>JSONError\<close> an error of \<open>encoding/json\<close>, \<open>APIError\<close> an \<open>ErrorResponse\<close> returned
  as an error.
\<close>

datatype error =
    ErrorString string
  | JSONError json_error
  | APIError ErrorResponse

definition ErrorResponse_Error :: "ErrorResponse \<Rightarrow> string" where
  "ErrorResponse_Error e = Message e @ '': '' @ Info e"

section \<open>Enumerations and their validated setters\<close>

type_synonym Lang = string
type_synonym Flag = string
type_synonym Flags = "Flag list"
type_synonym Type = string
type_synonym Category = string
type_synonym Categories = "Category list"

definition Cs :: Lang where "Cs = ''cs''"
definition De :: Lang where "De = ''de''"
definition En :: Lang where "En = ''en''"
definition Es :: Lang where "Es = ''es''"
definition Fr :: Lang where "Fr = ''fr''"
definition Pt :: Lang where "Pt = ''pt''"

definition Nsfw :: Flag where "Nsfw = ''nsfw''"
definition Religious :: Flag where "Religious = ''religious''"
definition Political :: Flag where "Political = ''political''"
definition Racist :: Flag where "Racist = ''racist''"
definition Sexist :: Flag where "Sexist = ''sexist''"
definition Explicit :: Flag where "Explicit = ''explicit''"

definition Single :: Type where "Single = ''single''"
definition Twopart :: Type where "Twopart = ''twopart''"

definition Any :: Category where "Any = ''Any''"
definition Christmas :: Category where "Christmas = ''Christmas''"
definition Dark :: Category where "Dark = ''Dark''"
definition Misc :: Category where "Misc = ''Misc''"
definition Programming :: Category where "Programming = ''Programming''"
definition Pun :: Category where "Pun = ''Pun''"
definition Spooky :: Category where "Spooky = ''Spooky''"

definition KeyAmount :: string where "KeyAmount = ''amount''"
definition KeyBlacklist :: string where "KeyBlacklist = ''blacklistFlags''"
definition KeyContains :: string where "KeyContains = ''contains''"
definition KeyIDRange :: string where "KeyIDRange = ''idRange''"
definition KeyLang :: string where "KeyLang = ''lang''"
definition KeySafe :: string where "KeySafe = ''safe-mode''"
definition KeyType :: string where "KeyType = ''type''"

text \<open>The case lists of the four \<open>switch\<close> statements.\<close>

definition lang_codes :: "Lang list" where
  "lang_codes = [Cs, De, En, Es, Fr, Pt]"

definition flag_tokens :: "Flag list" where
  "flag_tokens = [Nsfw, Religious, Political, Racist, Sexist, Explicit]"

definition type_tokens :: "Type list" where
  "type_tokens = [Single, Twopart]"

definition category_tokens :: "Category list" where
  "category_tokens = [Any, Misc, Programming, Dark, Pun, Spooky, Christmas]"

text \<open>
  A setter has a pointer receiver: the model takes the receiver's value and returns the
  value it holds afterwards, with the returned error (\<open>None\<close> for \<open>nil\<close>). The first
  argument is the parameter of \<open>%q\<close>.
\<close>

definition Lang_Set :: "(string \<Rightarrow> string) \<Rightarrow> Lang \<Rightarrow> string \<Rightarrow> Lang \<times> error option" where
  "Lang_Set hi s l =
     (if l \<in> set lang_codes then (l, None)
      else (s, Some (ErrorString (''invalid lang code: '' @ strconv_Quote hi l))))"

definition Flags_Add :: "(string \<Rightarrow> string) \<Rightarrow> Flags \<Rightarrow> string \<Rightarrow> Flags \<times> error option" where
  "Flags_Add hi s f =
     (if f \<in> set flag_tokens then (s @ [f], None)
      else (s, Some (ErrorString (''invalid flag: '' @ strconv_Quote hi f))))"

definition Type_Set :: "(string \<Rightarrow> string) \<Rightarrow> Type \<Rightarrow> string \<Rightarrow> Type \<times> error option" where
  "Type_Set hi s t =
     (if t \<in> set type_tokens then (t, None)
      else (s, Some (ErrorString (''invalid type: '' @ strconv_Quote hi t))))"

definition Categories_Add :: "(string \<Rightarrow> string) \<Rightarrow> Categories \<Rightarrow> string \<Rightarrow> Categories \<times> error option" where
  "Categories_Add hi s c =
     (if c \<in> set category_tokens then (s @ [c], None)
      else (s, Some (ErrorString (''invalid category: '' @ strconv_Quote hi c))))"

text \<open>
  The two \<open>String\<close> methods run the same loop: write the token, then a comma while
  \<open>i < c - 1\<close>. The loop index and the length are Go ints.
\<close>

fun Flags_String_loop :: "int \<Rightarrow> int \<Rightarrow> Flags \<Rightarrow> string \<Rightarrow> string" where
  "Flags_String_loop c i [] b = b"
| "Flags_String_loop c i (f # fs) b =
     Flags_String_loop c (i + 1) fs (if i < c - 1 then (b @ f) @ '','' else b @ f)"

definition Flags_String :: "Flags \<Rightarrow> string" where
  "Flags_String s = Flags_String_loop (int (length s)) 0 s []"

fun Categories_String_loop :: "int \<Rightarrow> int \<Rightarrow> Categories \<Rightarrow> string \<Rightarrow> string" where
  "Categories_String_loop c i [] b = b"
| "Categories_String_loop c i (f # fs) b =
     Categories_String_loop c (i + 1) fs (if i < c - 1 then (b @ f) @ '','' else b @ f)"

definition Categories_String :: "Categories \<Rightarrow> string" where
  "Categories_String s = Categories_String_loop (int (length s)) 0 s []"

text \<open>What "comma-joined, no trailing separator" says, independently of the loop.\<close>

fun comma_joined :: "string list \<Rightarrow> string" where
  "comma_joined [] = []"
| "comma_joined [x] = x"
| "comma_joined (x # y # ys) = x @ '','' @ comma_joined (y # ys)"

section \<open>ID ranges\<close>

record IDRange =
  Lower :: int
  Upper :: int

text \<open>
  Both formats name their arguments by index (\<open>%[1]d\<close>, \<open>%[2]d\<close>), so the unused second
  argument of the short format is not reported by \<open>Sprintf\<close>.
\<close>

definition IDRange_String :: "IDRange \<Rightarrow> string" where
  "IDRange_String r =
     (if Upper r > 0 then fmt_d (Lower r) @ ''-'' @ fmt_d (Upper r) else fmt_d (Lower r))"

section \<open>Requests\<close>

record Request =
  Amount :: int
  Blacklist :: Flags
  Category :: Categories
  Contains :: string
  ID :: "IDRange option"
  Lang :: Lang
  Safe :: bool
  Type :: Type

text \<open>The zero value \<open>Request{}\<close>: no field is set.\<close>

definition zero_Request :: Request where
  "zero_Request = \<lparr>Amount = 0, Blacklist = [], Category = [], Contains = [], ID = None,
                    Lang = [], Safe = False, Type = []\<rparr>"

text \<open>
  \<open>url.Values\<close> is a Go map from a name to a list of values. It is kept as an association
  list with distinct names, so that \<open>Encode\<close> can enumerate it; \<open>Set\<close> replaces the
  values of a name.
\<close>

type_synonym Values = "(string \<times> string list) list"

definition Values_Set :: "Values \<Rightarrow> string \<Rightarrow> string \<Rightarrow> Values" where
  "Values_Set v key val = AList.update key [val] v"

definition Values_keys :: "Values \<Rightarrow> string set" where
  "Values_keys v = fst ` set v"

definition Query :: "Request \<Rightarrow> Values" where
  "Query j =
     (let v = [];
          v = (if Amount j > 0 then Values_Set v KeyAmount (fmt_d (Amount j)) else v);
          v = (if length (Blacklist j) > 0 then Values_Set v KeyBlacklist (Flags_String (Blacklist j)) else v);
          v = (if Contains j \<noteq> [] then Values_Set v KeyContains (Contains j) else v);
          v = (case ID j of None \<Rightarrow> v | Some r \<Rightarrow> Values_Set v KeyIDRange (IDRange_String r));
          v = (if Lang j \<noteq> [] then Values_Set v KeyLang (Lang j) else v);
          v = (if Safe j then Values_Set v KeySafe [] else v);
          v = (if Type j \<noteq> [] then Values_Set v KeyType (Type j) else v)
      in v)"

subsection \<open>The URL\<close>














section \<open>Responses\<close>

text \<open>
  A Go map from flag names to booleans is kept as an association list with distinct
  names; a \<open>nil\<close> map or slice is \<open>None\<close>. The field \<open>Id\<close> is called \<open>JokeId\<close> here, \<open>Id\<close>
  being the identity relation of HOL.
\<close>

record Joke =
  Category :: Category
  Delivery :: string
  Flags :: "(Flag \<times> bool) list option"
  JokeId :: int
  Joke :: string
  Lang :: Lang
  Safe :: bool
  Setup :: string
  Type :: Type

definition Joke_String :: "Joke \<Rightarrow> string" where
  "Joke_String j = (if Type j = Twopart then Setup j @ [CHR 0x0A] @ Delivery j else Joke j)"

record Jokes =
  Jokes :: "Joke list option"

definition zero_Joke :: Joke where
  "zero_Joke = \<lparr>Category = [], Delivery = [], Flags = None, JokeId = 0, Joke = [],
                 Lang = [], Safe = False, Setup = [], Type = []\<rparr>"

definition zero_Jokes :: Jokes where
  "zero_Jokes = \<lparr>Jokes = None\<rparr>"

definition zero_ErrorResponse :: ErrorResponse where
  "zero_ErrorResponse = \<lparr>Cause = None, Code = 0, Info = [], Internal = False, Message = [], Time = 0\<rparr>"

subsection \<open>JSON documents and \<open>json.Unmarshal\<close>\<close>

text \<open>
  \<open>ParseResponse\<close> receives bytes and hands them to \<open>json.Unmarshal\<close>, which first checks
  their syntax. The model starts after that check: the input is \<open>None\<close> for bytes that
  are not a JSON text, and otherwise the document. An object keeps its members in the
  order of the text, repeated names included; strings are the decoded bytes; a number
  is its literal.
\<close>

datatype json =
    JNull
  | JBool bool
  | JNumber string
  | JString string
  | JArray "json list"
  | JObject "(string \<times> json) list"

fun json_kind :: "json \<Rightarrow> string" where
  "json_kind JNull = ''null''"
| "json_kind (JBool b) = ''bool''"
| "json_kind (JNumber n) = ''number''"
| "json_kind (JString s) = ''string''"
| "json_kind (JArray xs) = ''array''"
| "json_kind (JObject kvs) = ''object''"

text \<open>
  A value of the wrong JSON type does not stop the decoder: it records the first such
  error, leaves the target as it is, and goes on. A decoder therefore maps the target
  and the recorded error to the new target and the recorded error. \<open>null\<close> leaves a
  boolean, a number, a string and a struct as they are and resets a map and a slice
  to \<open>nil\<close>.
\<close>

definition saveError :: "json_error option \<Rightarrow> json_error \<Rightarrow> json_error option" where
  "saveError saved e = (case saved of None \<Rightarrow> Some e | Some e' \<Rightarrow> Some e')"

definition decode_bool :: "json \<Rightarrow> bool \<times> json_error option \<Rightarrow> bool \<times> json_error option" where
  "decode_bool v st =
     (case v of
        JNull \<Rightarrow> st
      | JBool b \<Rightarrow> (b, snd st)
      | _ \<Rightarrow> (fst st, saveError (snd st) (UnmarshalTypeError (json_kind v) ''bool'')))"

definition decode_string :: "string \<Rightarrow> json \<Rightarrow> string \<times> json_error option \<Rightarrow> string \<times> json_error option" where
  "decode_string ty v st =
     (case v of
        JNull \<Rightarrow> st
      | JString s \<Rightarrow> (s, snd st)
      | _ \<Rightarrow> (fst st, saveError (snd st) (UnmarshalTypeError (json_kind v) ty)))"

text \<open>\<open>strconv.ParseInt(s, 10, 64)\<close>: an optional sign, then digits, within 64 bits.\<close>

definition ParseInt :: "string \<Rightarrow> int option" where
  "ParseInt s =
     (let neg = (s \<noteq> [] \<and> hd s = CHR ''-'');
          ds = (if s \<noteq> [] \<and> (hd s = CHR ''-'' \<or> hd s = CHR ''+'') then tl s else s)
      in if ds = [] \<or> \<not> list_all is_digit ds then None
         else (let n = (if neg then - dec_val ds else dec_val ds)
               in if - (2 ^ 63) \<le> n \<and> n < 2 ^ 63 then Some n else None))"

definition decode_int :: "json \<Rightarrow> int \<times> json_error option \<Rightarrow> int \<times> json_error option" where
  "decode_int v st =
     (case v of
        JNull \<Rightarrow> st
      | JNumber lit \<Rightarrow>
          (case ParseInt lit of
             Some n \<Rightarrow> (n, snd st)
           | None \<Rightarrow> (fst st, saveError (snd st) (UnmarshalTypeError (''number '' @ lit) ''int'')))
      | _ \<Rightarrow> (fst st, saveError (snd st) (UnmarshalTypeError (json_kind v) ''int'')))"

text \<open>
  An array is decoded element by element into the slice: into the element already there
  while the slice has one at that index, into a zero value after that.
\<close>

fun decode_elems ::
  "'a \<Rightarrow> (json \<Rightarrow> 'a \<times> json_error option \<Rightarrow> 'a \<times> json_error option) \<Rightarrow>
   json list \<Rightarrow> 'a list \<Rightarrow> json_error option \<Rightarrow> 'a list \<times> json_error option" where
  "decode_elems zero dec [] old saved = ([], saved)"
| "decode_elems zero dec (x # xs) old saved =
     (let r = dec x ((case old of [] \<Rightarrow> zero | y # ys \<Rightarrow> y), saved);
          rs = decode_elems zero dec xs (tl old) (snd r)
      in (fst r # fst rs, snd rs))"

definition decode_slice ::
  "string \<Rightarrow> 'a \<Rightarrow> (json \<Rightarrow> 'a \<times> json_error option \<Rightarrow> 'a \<times> json_error option) \<Rightarrow>
   json \<Rightarrow> 'a list option \<times> json_error option \<Rightarrow> 'a list option \<times> json_error option" where
  "decode_slice ty zero dec v st =
     (case v of
        JNull \<Rightarrow> (None, snd st)
      | JArray xs \<Rightarrow>
          (let rs = decode_elems zero dec xs (case fst st of None \<Rightarrow> [] | Some old \<Rightarrow> old) (snd st)
           in (Some (fst rs), snd rs))
      | _ \<Rightarrow> (fst st, saveError (snd st) (UnmarshalTypeError (json_kind v) ty)))"

text \<open>
  Every member of an object is stored into a \<open>map[Flag]bool\<close> under its name; the value
  is decoded into a fresh \<open>false\<close>.
\<close>

definition decode_flag_map ::
  "json \<Rightarrow> (Flag \<times> bool) list option \<times> json_error option \<Rightarrow>
   (Flag \<times> bool) list option \<times> json_error option" where
  "decode_flag_map v st =
     (case v of
        JNull \<Rightarrow> (None, snd st)
      | JObject kvs \<Rightarrow>
          (let r = foldl (\<lambda>acc (k, x).
                      (let b = decode_bool x (False, snd acc)
                       in (AList.update k (fst b) (fst acc), snd b)))
                    ((case fst st of None \<Rightarrow> [] | Some m \<Rightarrow> m), snd st) kvs
           in (Some (fst r), snd r))
      | _ \<Rightarrow> (fst st, saveError (snd st) (UnmarshalTypeError (json_kind v) ''map[jokes.Flag]bool'')))"

text \<open>
  A member of an object goes to the struct field whose JSON name equals the member's
  name, or else to the first field whose name equals it under Unicode simple case
  folding. The field names here are ASCII letters; besides the other case of a letter,
  only the Kelvin sign (bytes E2 84 AA) folds to \<open>k\<close> and the long s (bytes C5 BF) to \<open>s\<close>.
\<close>

definition upper :: "char \<Rightarrow> char" where
  "upper c = (if 97 \<le> (of_char c :: nat) \<and> (of_char c :: nat) \<le> 122
              then char_of ((of_char c :: nat) - 32) else c)"

fun equalFold :: "string \<Rightarrow> string \<Rightarrow> bool" where
  "equalFold [] key = (key = [])"
| "equalFold (n # ns) key =
     (if key = [] then False
      else if is_ascii (hd key) then upper (hd key) = upper n \<and> equalFold ns (tl key)
      else if take 3 key = [CHR 0xE2, CHR 0x84, CHR 0xAA] then upper n = CHR ''K'' \<and> equalFold ns (drop 3 key)
      else if take 2 key = [CHR 0xC5, CHR 0xBF] then upper n = CHR ''S'' \<and> equalFold ns (drop 2 key)
      else False)"

definition find_field :: "string list \<Rightarrow> string \<Rightarrow> string option" where
  "find_field names key =
     (if key \<in> set names then Some key else List.find (\<lambda>n. equalFold n key) names)"

definition Joke_fields :: "string list" where
  "Joke_fields = [''category'', ''delivery'', ''flags'', ''id'', ''joke'', ''lang'', ''safe'',
                  ''setup'', ''type'']"

definition decode_Joke_member ::
  "Joke \<times> json_error option \<Rightarrow> string \<times> json \<Rightarrow> Joke \<times> json_error option" where
  "decode_Joke_member st kv =
     (let j = fst st; saved = snd st; v = snd kv in
      case find_field Joke_fields (fst kv) of
        None \<Rightarrow> st
      | Some f \<Rightarrow>
          if f = ''category'' then
            (let r = decode_string ''jokes.Category'' v (Category j, saved) in (j\<lparr>Category := fst r\<rparr>, snd r))
          else if f = ''delivery'' then
            (let r = decode_string ''string'' v (Delivery j, saved) in (j\<lparr>Delivery := fst r\<rparr>, snd r))
          else if f = ''flags'' then
            (let r = decode_flag_map v (Flags j, saved) in (j\<lparr>Flags := fst r\<rparr>, snd r))
          else if f = ''id'' then
            (let r = decode_int v (JokeId j, saved) in (j\<lparr>JokeId := fst r\<rparr>, snd r))
          else if f = ''joke'' then
            (let r = decode_string ''string'' v (Joke j, saved) in (j\<lparr>Joke := fst r\<rparr>, snd r))
          else if f = ''lang'' then
            (let r = decode_string ''jokes.Lang'' v (Lang j, saved) in (j\<lparr>Lang := fst r\<rparr>, snd r))
          else if f = ''safe'' then
            (let r = decode_bool v (Safe j, saved) in (j\<lparr>Safe := fst r\<rparr>, snd r))
          else if f = ''setup'' then
            (let r = decode_string ''string'' v (Setup j, saved) in (j\<lparr>Setup := fst r\<rparr>, snd r))
          else
            (let r = decode_string ''jokes.Type'' v (Type j, saved) in (j\<lparr>Type := fst r\<rparr>, snd r)))"

definition decode_Joke :: "json \<Rightarrow> Joke \<times> json_error option \<Rightarrow> Joke \<times> json_error option" where
  "decode_Joke v st =
     (case v of
        JNull \<Rightarrow> st
      | JObject kvs \<Rightarrow> foldl decode_Joke_member st kvs
      | _ \<Rightarrow> (fst st, saveError (snd st) (UnmarshalTypeError (json_kind v) ''jokes.Joke'')))"

definition decode_Jokes_member ::
  "Jokes \<times> json_error option \<Rightarrow> string \<times> json \<Rightarrow> Jokes \<times> json_error option" where
  "decode_Jokes_member st kv =
     (case find_field [''jokes''] (fst kv) of
        None \<Rightarrow> st
      | Some f \<Rightarrow>
          (let r = decode_slice ''[]jokes.Joke'' zero_Joke decode_Joke (snd kv) (Jokes (fst st), snd st)
           in ((fst st)\<lparr>Jokes := fst r\<rparr>, snd r)))"

definition decode_Jokes :: "json \<Rightarrow> Jokes \<times> json_error option \<Rightarrow> Jokes \<times> json_error option" where
  "decode_Jokes v st =
     (case v of
        JNull \<Rightarrow> st
      | JObject kvs \<Rightarrow> foldl decode_Jokes_member st kvs
      | _ \<Rightarrow> (fst st, saveError (snd st) (UnmarshalTypeError (json_kind v) ''jokes.Jokes'')))"

definition ErrorResponse_fields :: "string list" where
  "ErrorResponse_fields = [''causedBy'', ''code'', ''additionalInfo'', ''internalError'',
                           ''message'', ''timestamp'']"

definition decode_ErrorResponse_member ::
  "ErrorResponse \<times> json_error option \<Rightarrow> string \<times> json \<Rightarrow> ErrorResponse \<times> json_error option" where
  "decode_ErrorResponse_member st kv =
     (let e = fst st; saved = snd st; v = snd kv in
      case find_field ErrorResponse_fields (fst kv) of
        None \<Rightarrow> st
      | Some f \<Rightarrow>
          if f = ''causedBy'' then
            (let r = decode_slice ''[]string'' [] (decode_string ''string'') v (Cause e, saved)
             in (e\<lparr>Cause := fst r\<rparr>, snd r))
          else if f = ''code'' then
            (let r = decode_int v (Code e, saved) in (e\<lparr>Code := fst r\<rparr>, snd r))
          else if f = ''additionalInfo'' then
            (let r = decode_string ''string'' v (Info e, saved) in (e\<lparr>Info := fst r\<rparr>, snd r))
          else if f = ''internalError'' then
            (let r = decode_bool v (Internal e, saved) in (e\<lparr>Internal := fst r\<rparr>, snd r))
          else if f = ''message'' then
            (let r = decode_string ''string'' v (Message e, saved) in (e\<lparr>Message := fst r\<rparr>, snd r))
          else
            (let r = decode_int v (Time e, saved) in (e\<lparr>Time := fst r\<rparr>, snd r)))"

definition decode_ErrorResponse ::
  "json \<Rightarrow> ErrorResponse \<times> json_error option \<Rightarrow> ErrorResponse \<times> json_error option" where
  "decode_ErrorResponse v st =
     (case v of
        JNull \<Rightarrow> st
      | JObject kvs \<Rightarrow> foldl decode_ErrorResponse_member st kvs
      | _ \<Rightarrow> (fst st, saveError (snd st) (UnmarshalTypeError (json_kind v) ''jokes.ErrorResponse'')))"

text \<open>
  Into a \<open>map[string]json.RawMessage\<close> every member is stored under its exact name, a
  later member replacing an earlier one of the same name; the raw message is the
  member's value as it stands.
\<close>

type_synonym raw_map = "string \<rightharpoonup> json"

definition decode_raw :: "json \<Rightarrow> raw_map \<times> json_error option \<Rightarrow> raw_map \<times> json_error option" where
  "decode_raw v st =
     (case v of
        JNull \<Rightarrow> (Map.empty, snd st)
      | JObject kvs \<Rightarrow> (foldl (\<lambda>m kv. m(fst kv \<mapsto> snd kv)) (fst st) kvs, snd st)
      | _ \<Rightarrow> (fst st, saveError (snd st) (UnmarshalTypeError (json_kind v) ''map[string]json.RawMessage'')))"

text \<open>
  \<open>json.Unmarshal(data, &target)\<close>: the new value of the target and the returned error,
  which is the syntax error or the first recorded type error.
\<close>

definition Unmarshal ::
  "(json \<Rightarrow> 'a \<times> json_error option \<Rightarrow> 'a \<times> json_error option) \<Rightarrow> json option \<Rightarrow> 'a \<Rightarrow>
   'a \<times> json_error option" where
  "Unmarshal dec data target =
     (case data of None \<Rightarrow> (target, Some SyntaxError) | Some v \<Rightarrow> dec v (target, None))"

subsection \<open>\<open>ParseResponse\<close>\<close>

text \<open>
  The result is the pair of named results \<open>(j, e)\<close>: \<open>j\<close> is \<open>None\<close> while it is the \<open>nil\<close>
  slice it starts as, \<open>e\<close> is \<open>None\<close> for \<open>nil\<close>.
\<close>

definition no_error_property :: string where
  "no_error_property = ''response has no '' @ [dquote] @ ''error'' @ [dquote] @ '' property''"

definition ParseResponse :: "json option \<Rightarrow> Joke list option \<times> error option" where
  "ParseResponse jsn =
     (case Unmarshal decode_raw jsn Map.empty of
        (raw, Some e) \<Rightarrow> (None, Some (JSONError e))
      | (raw, None) \<Rightarrow>
          (case raw ''error'' of
             None \<Rightarrow> (None, Some (ErrorString no_error_property))
           | Some err \<Rightarrow>
               (case Unmarshal decode_bool (Some err) False of
                  (isErr, Some e) \<Rightarrow> (None, Some (JSONError e))
                | (isErr, None) \<Rightarrow>
                    if isErr then
                      (case Unmarshal decode_ErrorResponse jsn zero_ErrorResponse of
                         (err, None) \<Rightarrow> (None, Some (APIError err))
                       | (err, Some e) \<Rightarrow> (None, Some (JSONError e)))
                    else if raw ''amount'' \<noteq> None then
                      (case Unmarshal decode_Jokes jsn zero_Jokes of
                         (jokes, None) \<Rightarrow> (Jokes jokes, None)
                       | (jokes, Some e) \<Rightarrow> (None, Some (JSONError e)))
                    else
                      (case Unmarshal decode_Joke jsn zero_Joke of
                         (joke, None) \<Rightarrow> (Some [joke], None)
                       | (joke, Some e) \<Rightarrow> (None, Some (JSONError e))))))"

section \<open>Properties of the request builder\<close>

subsection \<open>Joining, decimal digits, quoting\<close>

lemma Flags_String_loop_joined:
  "c = i + int (length xs) \<Longrightarrow> Flags_String_loop c i xs b = b @ comma_joined xs"
proof (induction xs arbitrary: i b)
  case Nil
  then show ?case by simp
next
  case (Cons x xs)
  show ?case
  proof (cases xs)
    case Nil
    with Cons.prems show ?thesis by simp
  next
    case (Cons y ys)
    with Cons.prems Cons.IH [of "i + 1"] show ?thesis by simp
  qed
qed

lemma Flags_String_joined: "Flags_String s = comma_joined s"
  by (simp add: Flags_String_def Flags_String_loop_joined)

lemma Categories_String_loop_joined:
  "c = i + int (length xs) \<Longrightarrow> Categories_String_loop c i xs b = b @ comma_joined xs"
proof (induction xs arbitrary: i b)
  case Nil
  then show ?case by simp
next
  case (Cons x xs)
  show ?case
  proof (cases xs)
    case Nil
    with Cons.prems show ?thesis by simp
  next
    case (Cons y ys)
    with Cons.prems Cons.IH [of "i + 1"] show ?thesis by simp
  qed
qed

lemma Categories_String_joined: "Categories_String s = comma_joined s"
  by (simp add: Categories_String_def Categories_String_loop_joined)

lemma comma_joined_snoc: "ts \<noteq> [] \<Longrightarrow> comma_joined (ts @ [t]) = comma_joined ts @ '','' @ t"
  by (induction ts rule: comma_joined.induct) simp_all

lemma digit_char_val: "d < 10 \<Longrightarrow> digit_val (digit_char d) = int d \<and> is_digit (digit_char d)"
proof -
  assume "d < 10"
  then have "d \<in> {0,1,2,3,4,5,6,7,8,9}" by auto
  then show ?thesis
    by (auto simp: digit_val_def digit_char_def is_digit_def)
qed

lemma dec_val_snoc: "dec_val (s @ [c]) = 10 * dec_val s + digit_val c"
  by (simp add: dec_val_def)

lemma dec_val_decimal: "dec_val (decimal n) = int n \<and> list_all is_digit (decimal n)"
proof (induction n rule: decimal.induct)
  case (1 n)
  show ?case
  proof (cases "n < 10")
    case True
    then have "decimal n = [digit_char n]"
      by (simp add: decimal.simps [of n])
    then show ?thesis
      using digit_char_val [OF True] by (simp add: dec_val_def)
  next
    case False
    have m: "n mod 10 < 10" by simp
    from False 1 have ih: "dec_val (decimal (n div 10)) = int (n div 10)"
        "list_all is_digit (decimal (n div 10))"
      by simp_all
    have "decimal n = decimal (n div 10) @ [digit_char (n mod 10)]"
      using False by (simp add: decimal.simps [of n])
    moreover have "10 * int (n div 10) + int (n mod 10) = int n"
      by presburger
    ultimately show ?thesis
      using ih digit_char_val [OF m] by (simp add: dec_val_snoc)
  qed
qed

lemma fmt_d_nonneg: "0 \<le> i \<Longrightarrow> dec_val (fmt_d i) = i \<and> list_all is_digit (fmt_d i)"
  using dec_val_decimal [of "nat i"] by (simp add: fmt_d_def)

lemma fmt_d_neg: "i < 0 \<Longrightarrow> fmt_d i = ''-'' @ fmt_d (- i)"
  by (simp add: fmt_d_def)

lemma escape_ascii_plain: "plain_char c \<Longrightarrow> escape_ascii c = [c]"
  by (simp add: escape_ascii_def plain_char_def Let_def)

lemma plain_char_ascii: "plain_char c \<Longrightarrow> is_ascii c"
  by (simp add: plain_char_def is_ascii_def)

lemma quote_body_ascii: "list_all is_ascii v \<Longrightarrow> quote_body hi v = concat (map escape_ascii v)"
  by (induction v) simp_all

lemma quote_body_plain: "list_all plain_char v \<Longrightarrow> quote_body hi v = v"
  by (induction v) (simp_all add: escape_ascii_plain plain_char_ascii)

subsection \<open>The query parameters\<close>

lemmas Key_defs = KeyAmount_def KeyBlacklist_def KeyContains_def KeyIDRange_def KeyLang_def
  KeySafe_def KeyType_def

lemma Values_keys_Set: "Values_keys (Values_Set v k x) = insert k (Values_keys v)"
  by (simp add: Values_keys_def Values_Set_def AList.dom_update)

lemma map_of_Values_Set: "map_of (Values_Set v k x) = (map_of v)(k \<mapsto> [x])"
  by (simp add: Values_Set_def update_conv')

lemma Values_keys_Nil: "Values_keys [] = {}"
  by (simp add: Values_keys_def)

lemma Query_keys_eq:
  "Values_keys (Query r) =
     (if Amount r > 0 then {KeyAmount} else {}) \<union>
     (if Blacklist r \<noteq> [] then {KeyBlacklist} else {}) \<union>
     (if Contains r \<noteq> [] then {KeyContains} else {}) \<union>
     (if ID r \<noteq> None then {KeyIDRange} else {}) \<union>
     (if Request.Lang r \<noteq> [] then {KeyLang} else {}) \<union>
     (if Request.Safe r then {KeySafe} else {}) \<union>
     (if Request.Type r \<noteq> [] then {KeyType} else {})"
  by (cases "ID r") (auto simp: Query_def Let_def Values_keys_Set Values_keys_Nil)

lemma map_of_Query_amount:
  "map_of (Query r) KeyAmount = (if Amount r > 0 then Some [fmt_d (Amount r)] else None)"
  by (cases "ID r") (simp_all add: Query_def Let_def map_of_Values_Set Key_defs)

lemma map_of_Query_safe:
  "map_of (Query r) KeySafe = (if Request.Safe r then Some [[]] else None)"
  by (cases "ID r") (simp_all add: Query_def Let_def map_of_Values_Set Key_defs)

lemma map_of_Query_blacklist:
  "map_of (Query r) KeyBlacklist =
     (if Blacklist r \<noteq> [] then Some [Flags_String (Blacklist r)] else None)"
  by (cases "ID r") (simp_all add: Query_def Let_def map_of_Values_Set Key_defs)

lemma Query_amount_5: "Query (zero_Request\<lparr>Amount := 5\<rparr>) = [(''amount'', [''5''])]"
  by code_simp

lemma Query_safe_true: "Query (zero_Request\<lparr>Request.Safe := True\<rparr>) = [(''safe-mode'', [[]])]"
  by code_simp

text \<open>
  Claim C3. For every request, \<open>Query\<close> has a name exactly for each field that is set:
  \<open>amount\<close> iff \<open>Amount > 0\<close>, \<open>blacklistFlags\<close> iff the blacklist is not empty,
  \<open>contains\<close> iff the text is not empty, \<open>idRange\<close> iff the ID range is not \<open>nil\<close>,
  \<open>lang\<close> iff the language is not empty, \<open>safe-mode\<close> iff \<open>Safe\<close> is true, \<open>type\<close> iff
  the type is not empty; it has no other name, and a request with no field set gives
  the empty mapping.
\<close>

theorem Query_keys:
  "(KeyAmount \<in> Values_keys (Query r) \<longleftrightarrow> Amount r > 0) \<and>
   (KeyBlacklist \<in> Values_keys (Query r) \<longleftrightarrow> Blacklist r \<noteq> []) \<and>
   (KeyContains \<in> Values_keys (Query r) \<longleftrightarrow> Contains r \<noteq> []) \<and>
   (KeyIDRange \<in> Values_keys (Query r) \<longleftrightarrow> ID r \<noteq> None) \<and>
   (KeyLang \<in> Values_keys (Query r) \<longleftrightarrow> Request.Lang r \<noteq> []) \<and>
   (KeySafe \<in> Values_keys (Query r) \<longleftrightarrow> Request.Safe r) \<and>
   (KeyType \<in> Values_keys (Query r) \<longleftrightarrow> Request.Type r \<noteq> []) \<and>
   Values_keys (Query r) \<subseteq>
     {KeyAmount, KeyBlacklist, KeyContains, KeyIDRange, KeyLang, KeySafe, KeyType} \<and>
   (\<not> Amount r > 0 \<and> Blacklist r = [] \<and> Contains r = [] \<and> ID r = None \<and>
      Request.Lang r = [] \<and> \<not> Request.Safe r \<and> Request.Type r = [] \<longrightarrow> Query r = [])"
proof -
  have none_set: "\<not> Amount r > 0 \<and> Blacklist r = [] \<and> Contains r = [] \<and> ID r = None \<and>
      Request.Lang r = [] \<and> \<not> Request.Safe r \<and> Request.Type r = [] \<longrightarrow> Query r = []"
    by (simp add: Query_def)
  have keys: "(KeyAmount \<in> Values_keys (Query r) \<longleftrightarrow> Amount r > 0) \<and>
   (KeyBlacklist \<in> Values_keys (Query r) \<longleftrightarrow> Blacklist r \<noteq> []) \<and>
   (KeyContains \<in> Values_keys (Query r) \<longleftrightarrow> Contains r \<noteq> []) \<and>
   (KeyIDRange \<in> Values_keys (Query r) \<longleftrightarrow> ID r \<noteq> None) \<and>
   (KeyLang \<in> Values_keys (Query r) \<longleftrightarrow> Request.Lang r \<noteq> []) \<and>
   (KeySafe \<in> Values_keys (Query r) \<longleftrightarrow> Request.Safe r) \<and>
   (KeyType \<in> Values_keys (Query r) \<longleftrightarrow> Request.Type r \<noteq> [])"
    unfolding Query_keys_eq by (simp add: Key_defs)
  have sub: "Values_keys (Query r) \<subseteq>
      {KeyAmount, KeyBlacklist, KeyContains, KeyIDRange, KeyLang, KeySafe, KeyType}"
    unfolding Query_keys_eq by auto
  from keys sub none_set show ?thesis by blast
qed

theorem Query_keys_witness:
  "Query zero_Request = [] \<and>
   KeyAmount \<in> Values_keys (Query (zero_Request\<lparr>Amount := 5\<rparr>)) \<and>
   KeyType \<notin> Values_keys (Query (zero_Request\<lparr>Amount := 5\<rparr>))"
  using Query_keys [of zero_Request] Query_keys [of "zero_Request\<lparr>Amount := 5\<rparr>"]
  by (simp add: zero_Request_def)

text \<open>
  Claim C7. \<open>Query\<close> renders the value of a set field as follows: \<open>Amount\<close> as its decimal
  string (a string of digits whose value is the amount; 5 gives \<open>5\<close>), \<open>Safe = true\<close> as
  the empty string under \<open>safe-mode\<close>, and a blacklist that is not empty as its tokens
  joined by commas in insertion order, with no separator after the last token; the
  category list is joined in the same way.
\<close>

theorem Query_values:
  "(Amount r > 0 \<longrightarrow>
      map_of (Query r) KeyAmount = Some [fmt_d (Amount r)] \<and>
      dec_val (fmt_d (Amount r)) = Amount r \<and> list_all is_digit (fmt_d (Amount r))) \<and>
   (Request.Safe r \<longrightarrow> map_of (Query r) KeySafe = Some [[]]) \<and>
   (Blacklist r \<noteq> [] \<longrightarrow> map_of (Query r) KeyBlacklist = Some [comma_joined (Blacklist r)]) \<and>
   Flags_String fs = comma_joined fs \<and>
   Categories_String cs = comma_joined cs \<and>
   (ts \<noteq> [] \<longrightarrow> comma_joined (ts @ [t]) = comma_joined ts @ '','' @ t) \<and>
   Query (zero_Request\<lparr>Amount := 5\<rparr>) = [(''amount'', [''5''])] \<and>
   Query (zero_Request\<lparr>Request.Safe := True\<rparr>) = [(''safe-mode'', [[]])]"
  using fmt_d_nonneg [of "Amount r"] comma_joined_snoc [of ts t]
  by (simp add: map_of_Query_amount map_of_Query_safe map_of_Query_blacklist Flags_String_joined
      Categories_String_joined Query_amount_5 Query_safe_true)

theorem Query_values_witness:
  "map_of (Query (zero_Request\<lparr>Amount := 5, Blacklist := [Nsfw, Political, Explicit],
                               Request.Safe := True\<rparr>)) KeyAmount = Some [''5''] \<and>
   map_of (Query (zero_Request\<lparr>Amount := 5, Blacklist := [Nsfw, Political, Explicit],
                               Request.Safe := True\<rparr>)) KeySafe = Some [[]] \<and>
   map_of (Query (zero_Request\<lparr>Amount := 5, Blacklist := [Nsfw, Political, Explicit],
                               Request.Safe := True\<rparr>)) KeyBlacklist
     = Some [''nsfw,political,explicit''] \<and>
   comma_joined ([Dark] @ [Pun]) = ''Dark,Pun''"
proof -
  let ?r = "zero_Request\<lparr>Amount := 5, Blacklist := [Nsfw, Political, Explicit],
                         Request.Safe := True\<rparr>"
  have a: "Amount ?r > 0" "Request.Safe ?r" "Blacklist ?r \<noteq> []" "Amount ?r = 5"
      "Blacklist ?r = [Nsfw, Political, Explicit]"
    by (simp_all add: zero_Request_def)
  have f: "fmt_d 5 = ''5''" by code_simp
  have c: "comma_joined [Nsfw, Political, Explicit] = ''nsfw,political,explicit''" by code_simp
  have d: "comma_joined [Dark] @ '','' @ Pun = ''Dark,Pun''" by code_simp
  from Query_values [where r = ?r and ts = "[Dark]" and t = Pun] a f c d show ?thesis by simp
qed

subsection \<open>ID ranges\<close>

text \<open>
  The data model gives an ID range an upper bound that is not negative, 0 meaning no
  upper bound. The code tests \<open>Upper > 0\<close>; on that domain this is the test "not 0".
  (A negative upper bound, which the Go type admits, takes the branch of 0.)
\<close>

lemma IDRange_String_not_positive: "Upper r \<le> 0 \<Longrightarrow> IDRange_String r = fmt_d (Lower r)"
  by (simp add: IDRange_String_def)

text \<open>
  Claim C8. For every ID range (upper bound not negative), the rendering is the decimal
  lower bound alone when the upper bound is 0, and \<open>lower-upper\<close> otherwise; the range
  1, 0 renders as \<open>1\<close> and the range 2, 32 as \<open>2-32\<close>. The digits of a bound that is not
  negative read back as the bound.
\<close>

theorem IDRange_String_cases:
  assumes "0 \<le> Upper r"
  shows "(Upper r = 0 \<longrightarrow> IDRange_String r = fmt_d (Lower r)) \<and>
         (Upper r \<noteq> 0 \<longrightarrow> IDRange_String r = fmt_d (Lower r) @ ''-'' @ fmt_d (Upper r)) \<and>
         (0 \<le> Lower r \<longrightarrow> dec_val (fmt_d (Lower r)) = Lower r) \<and>
         dec_val (fmt_d (Upper r)) = Upper r \<and>
         IDRange_String \<lparr>Lower = 1, Upper = 0\<rparr> = ''1'' \<and>
         IDRange_String \<lparr>Lower = 2, Upper = 32\<rparr> = ''2-32''"
proof -
  have "IDRange_String \<lparr>Lower = 1, Upper = 0\<rparr> = ''1''" by code_simp
  moreover have "IDRange_String \<lparr>Lower = 2, Upper = 32\<rparr> = ''2-32''" by code_simp
  moreover have "Upper r \<noteq> 0 \<longrightarrow> 0 < Upper r"
    using assms by simp
  ultimately show ?thesis
    using assms fmt_d_nonneg [of "Lower r"] fmt_d_nonneg [of "Upper r"]
    by (simp add: IDRange_String_def)
qed

theorem IDRange_String_cases_witness:
  "(0::int) \<le> Upper \<lparr>Lower = 42, Upper = 0\<rparr> \<and>
   (0::int) \<le> Upper \<lparr>Lower = 42, Upper = 1024\<rparr> \<and>
   IDRange_String \<lparr>Lower = 42, Upper = 0\<rparr> = fmt_d 42 \<and>
   IDRange_String \<lparr>Lower = 42, Upper = 1024\<rparr> = fmt_d 42 @ ''-'' @ fmt_d 1024 \<and>
   dec_val (fmt_d 42) = 42 \<and> dec_val (fmt_d 1024) = 1024"
proof -
  have h0: "(0::int) \<le> Upper \<lparr>Lower = 42, Upper = 0\<rparr>" by simp
  have h1: "(0::int) \<le> Upper \<lparr>Lower = 42, Upper = 1024\<rparr>" by simp
  from IDRange_String_cases [OF h0] IDRange_String_cases [OF h1] h0 h1 show ?thesis
    by simp
qed

subsection \<open>The validated setters\<close>

text \<open>
  Claim C9 as stated (adding a token that is already present produces no duplicate)
  fails: adding \<open>nsfw\<close> to the blacklist \<open>nsfw\<close> gives \<open>nsfw, nsfw\<close>, and likewise for a
  category.
\<close>

theorem Add_duplicate:
  "Flags_Add id [Nsfw] ''nsfw'' = ([Nsfw, Nsfw], None) \<and>
   \<not> distinct (fst (Flags_Add id [Nsfw] ''nsfw'')) \<and>
   Categories_Add id [Dark] ''Dark'' = ([Dark, Dark], None) \<and>
   \<not> distinct (fst (Categories_Add id [Dark] ''Dark''))"
  by code_simp

text \<open>
  Claim C9, amended. The blacklist and the category list are ordered lists of validated
  tokens: for every list and every valid token, \<open>Add\<close> succeeds and appends the token at
  the end, whether or not it is present, so the token occurs once more than before and
  a token that was present becomes a duplicate entry.
\<close>

theorem Add_appends:
  "(f \<in> set flag_tokens \<longrightarrow>
      Flags_Add hi s f = (s @ [f], None) \<and>
      count_list (fst (Flags_Add hi s f)) f = count_list s f + 1 \<and>
      (f \<in> set s \<longrightarrow> \<not> distinct (fst (Flags_Add hi s f)))) \<and>
   (c \<in> set category_tokens \<longrightarrow>
      Categories_Add hi cs c = (cs @ [c], None) \<and>
      count_list (fst (Categories_Add hi cs c)) c = count_list cs c + 1 \<and>
      (c \<in> set cs \<longrightarrow> \<not> distinct (fst (Categories_Add hi cs c))))"
  by (simp add: Flags_Add_def Categories_Add_def)

theorem Add_appends_witness:
  "Nsfw \<in> set flag_tokens \<and> Nsfw \<in> set [Racist, Nsfw] \<and>
   Flags_Add id [Racist, Nsfw] Nsfw = ([Racist, Nsfw, Nsfw], None) \<and>
   \<not> distinct (fst (Flags_Add id [Racist, Nsfw] Nsfw)) \<and>
   Pun \<in> set category_tokens \<and> Pun \<in> set [Pun] \<and>
   Categories_Add id [Pun] Pun = ([Pun, Pun], None) \<and>
   \<not> distinct (fst (Categories_Add id [Pun] Pun))"
  using Add_appends [where f = Nsfw and s = "[Racist, Nsfw]" and hi = id and c = Pun and cs = "[Pun]"]
  by (simp add: flag_tokens_def category_tokens_def)

text \<open>
  Claim C4 as stated (the error of a rejected value is \<open>invalid <field>: "<value>"\<close>, the
  value between double quotes) fails for a value that \<open>%q\<close> escapes: for the raw string
  \<open>a"b\<close> the blacklist \<open>Add\<close> returns \<open>invalid flag: "a\"b"\<close>, with a backslash before the
  inner quote. The value is ASCII, so the parameter for bytes from 0x80 up plays no part.
\<close>

theorem Add_quotes_value:
  "Flags_Add id [] [CHR ''a'', dquote, CHR ''b'']
     = ([], Some (ErrorString (''invalid flag: '' @
          [dquote, CHR ''a'', backslash, dquote, CHR ''b'', dquote]))) \<and>
   snd (Flags_Add id [] [CHR ''a'', dquote, CHR ''b''])
     \<noteq> Some (ErrorString (''invalid flag: '' @ [dquote] @ [CHR ''a'', dquote, CHR ''b''] @ [dquote]))"
  by code_simp

text \<open>
  Claim C4, amended. For each validated setter (blacklist \<open>Add\<close>, category \<open>Add\<close>,
  language \<open>Set\<close>, type \<open>Set\<close>) and every raw string outside the field's vocabulary, the
  setter returns the error \<open>invalid <field>: \<close> followed by the value as \<open>%q\<close> quotes it,
  and leaves the field as it was; for every string of the vocabulary it appends or
  assigns the value and returns no error. The quoted value stands between double
  quotes: unchanged when it consists of printable ASCII characters other than the
  double quote and the backslash, with Go escapes otherwise. The vocabularies are the
  ones listed.
\<close>

theorem validated_setters:
  "(v \<notin> set lang_codes \<longrightarrow>
      Lang_Set hi l v = (l, Some (ErrorString (''invalid lang code: '' @ strconv_Quote hi v)))) \<and>
   (v \<in> set lang_codes \<longrightarrow> Lang_Set hi l v = (v, None)) \<and>
   (v \<notin> set type_tokens \<longrightarrow>
      Type_Set hi t v = (t, Some (ErrorString (''invalid type: '' @ strconv_Quote hi v)))) \<and>
   (v \<in> set type_tokens \<longrightarrow> Type_Set hi t v = (v, None)) \<and>
   (v \<notin> set flag_tokens \<longrightarrow>
      Flags_Add hi fs v = (fs, Some (ErrorString (''invalid flag: '' @ strconv_Quote hi v)))) \<and>
   (v \<in> set flag_tokens \<longrightarrow> Flags_Add hi fs v = (fs @ [v], None)) \<and>
   (v \<notin> set category_tokens \<longrightarrow>
      Categories_Add hi cs v = (cs, Some (ErrorString (''invalid category: '' @ strconv_Quote hi v)))) \<and>
   (v \<in> set category_tokens \<longrightarrow> Categories_Add hi cs v = (cs @ [v], None)) \<and>
   strconv_Quote hi v = [dquote] @ quote_body hi v @ [dquote] \<and>
   (list_all plain_char v \<longrightarrow> quote_body hi v = v) \<and>
   (list_all is_ascii v \<longrightarrow> quote_body hi v = concat (map escape_ascii v)) \<and>
   set lang_codes = {''cs'', ''de'', ''en'', ''es'', ''fr'', ''pt''} \<and>
   set type_tokens = {''single'', ''twopart''} \<and>
   set flag_tokens = {''nsfw'', ''religious'', ''political'', ''racist'', ''sexist'', ''explicit''} \<and>
   set category_tokens =
     {''Any'', ''Misc'', ''Programming'', ''Dark'', ''Pun'', ''Spooky'', ''Christmas''}"
proof -
  have "set lang_codes = {''cs'', ''de'', ''en'', ''es'', ''fr'', ''pt''}"
    by (simp add: lang_codes_def Cs_def De_def En_def Es_def Fr_def Pt_def)
  moreover have "set type_tokens = {''single'', ''twopart''}"
    by (simp add: type_tokens_def Single_def Twopart_def)
  moreover have "set flag_tokens =
      {''nsfw'', ''religious'', ''political'', ''racist'', ''sexist'', ''explicit''}"
    by (simp add: flag_tokens_def Nsfw_def Religious_def Political_def Racist_def Sexist_def
        Explicit_def)
  moreover have "set category_tokens =
      {''Any'', ''Misc'', ''Programming'', ''Dark'', ''Pun'', ''Spooky'', ''Christmas''}"
    by (simp add: category_tokens_def Any_def Misc_def Programming_def Dark_def Pun_def
        Spooky_def Christmas_def)
  moreover have "strconv_Quote hi v = [dquote] @ quote_body hi v @ [dquote]"
    by (simp add: strconv_Quote_def)
  moreover have "list_all plain_char v \<longrightarrow> quote_body hi v = v"
    using quote_body_plain by blast
  moreover have "list_all is_ascii v \<longrightarrow> quote_body hi v = concat (map escape_ascii v)"
    using quote_body_ascii by blast
  moreover have "(v \<notin> set lang_codes \<longrightarrow>
      Lang_Set hi l v = (l, Some (ErrorString (''invalid lang code: '' @ strconv_Quote hi v)))) \<and>
   (v \<in> set lang_codes \<longrightarrow> Lang_Set hi l v = (v, None))"
    by (simp add: Lang_Set_def)
  moreover have "(v \<notin> set type_tokens \<longrightarrow>
      Type_Set hi t v = (t, Some (ErrorString (''invalid type: '' @ strconv_Quote hi v)))) \<and>
   (v \<in> set type_tokens \<longrightarrow> Type_Set hi t v = (v, None))"
    by (simp add: Type_Set_def)
  moreover have "(v \<notin> set flag_tokens \<longrightarrow>
      Flags_Add hi fs v = (fs, Some (ErrorString (''invalid flag: '' @ strconv_Quote hi v)))) \<and>
   (v \<in> set flag_tokens \<longrightarrow> Flags_Add hi fs v = (fs @ [v], None))"
    by (simp add: Flags_Add_def)
  moreover have "(v \<notin> set category_tokens \<longrightarrow>
      Categories_Add hi cs v = (cs, Some (ErrorString (''invalid category: '' @ strconv_Quote hi v)))) \<and>
   (v \<in> set category_tokens \<longrightarrow> Categories_Add hi cs v = (cs @ [v], None))"
    by (simp add: Categories_Add_def)
  ultimately show ?thesis by blast
qed

theorem validated_setters_witness:
  "Flags_Add id [Nsfw] ''invalid''
     = ([Nsfw], Some (ErrorString (''invalid flag: '' @ [dquote] @ ''invalid'' @ [dquote]))) \<and>
   Lang_Set id En ''invalid''
     = (En, Some (ErrorString (''invalid lang code: '' @ [dquote] @ ''invalid'' @ [dquote]))) \<and>
   Type_Set id [] ''invalid''
     = ([], Some (ErrorString (''invalid type: '' @ [dquote] @ ''invalid'' @ [dquote]))) \<and>
   Categories_Add id [] ''invalid''
     = ([], Some (ErrorString (''invalid category: '' @ [dquote] @ ''invalid'' @ [dquote]))) \<and>
   Flags_Add id [Nsfw] ''racist'' = ([Nsfw, Racist], None) \<and>
   Lang_Set id En ''pt'' = (Pt, None) \<and>
   Type_Set id [] ''twopart'' = (Twopart, None) \<and>
   Categories_Add id [] ''Pun'' = ([Pun], None) \<and>
   Flags_Add id [] [CHR ''a'', dquote, CHR 0x0A]
     = ([], Some (ErrorString (''invalid flag: '' @
          [dquote, CHR ''a'', backslash, dquote, backslash, CHR ''n'', dquote])))"
proof -
  have p: "list_all plain_char ''invalid''"
    by (simp add: plain_char_def dquote_def backslash_def)
  note i = validated_setters [where v = "''invalid''" and hi = id]
  from i [where fs = "[Nsfw]" and l = En and t = "[]" and cs = "[]"] p
  have inv: "Flags_Add id [Nsfw] ''invalid''
     = ([Nsfw], Some (ErrorString (''invalid flag: '' @ [dquote] @ ''invalid'' @ [dquote]))) \<and>
   Lang_Set id En ''invalid''
     = (En, Some (ErrorString (''invalid lang code: '' @ [dquote] @ ''invalid'' @ [dquote]))) \<and>
   Type_Set id [] ''invalid''
     = ([], Some (ErrorString (''invalid type: '' @ [dquote] @ ''invalid'' @ [dquote]))) \<and>
   Categories_Add id [] ''invalid''
     = ([], Some (ErrorString (''invalid category: '' @ [dquote] @ ''invalid'' @ [dquote])))"
    by simp
  have r: "Flags_Add id [Nsfw] ''racist'' = ([Nsfw, Racist], None)"
    using validated_setters [where v = "''racist''" and hi = id and fs = "[Nsfw]"]
    by (simp add: Racist_def)
  have l: "Lang_Set id En ''pt'' = (Pt, None)"
    using validated_setters [where v = "''pt''" and hi = id and l = En]
    by (simp add: Pt_def)
  have t: "Type_Set id [] ''twopart'' = (Twopart, None)"
    using validated_setters [where v = "''twopart''" and hi = id and t = "[]"]
    by (simp add: Twopart_def)
  have c: "Categories_Add id [] ''Pun'' = ([Pun], None)"
    using validated_setters [where v = "''Pun''" and hi = id and cs = "[]"]
    by (simp add: Pun_def)
  have a: "list_all is_ascii [CHR ''a'', dquote, CHR 0x0A]"
    by (simp add: is_ascii_def dquote_def)
  have e: "concat (map escape_ascii [CHR ''a'', dquote, CHR 0x0A])
             = [CHR ''a'', backslash, dquote, backslash, CHR ''n'']"
    by (simp add: escape_ascii_def dquote_def backslash_def)
  have n: "[CHR ''a'', dquote, CHR 0x0A] \<notin> set flag_tokens"
    by (simp add: flag_tokens_def Nsfw_def Religious_def Political_def Racist_def Sexist_def
        Explicit_def dquote_def)
  have q: "Flags_Add id [] [CHR ''a'', dquote, CHR 0x0A]
     = ([], Some (ErrorString (''invalid flag: '' @
          [dquote, CHR ''a'', backslash, dquote, backslash, CHR ''n'', dquote])))"
    using validated_setters [where v = "[CHR ''a'', dquote, CHR 0x0A]" and hi = id and fs = "[]"]
      a e n
    by simp
  from inv r l t c q show ?thesis by blast
qed

subsection \<open>The URL\<close>














text \<open>
  The data model gives a request a category list of validated tokens. (A category
  written into the field directly, which the Go type admits, appears in the URL in the
  escaped form of \<open>URL_general\<close>.)
\<close>



section \<open>Properties of the response parser\<close>

subsection \<open>The raw members and the two signal fields\<close>

lemma foldl_raw:
  "foldl (\<lambda>m kv. m(fst kv \<mapsto> snd kv)) m kvs = m ++ map_of (rev kvs)"
proof (induction kvs arbitrary: m)
  case Nil
  show ?case by simp
next
  case (Cons kv kvs)
  have "foldl (\<lambda>m kv. m(fst kv \<mapsto> snd kv)) m (kv # kvs)
          = foldl (\<lambda>m kv. m(fst kv \<mapsto> snd kv)) (m(fst kv \<mapsto> snd kv)) kvs"
    by (simp only: foldl_Cons)
  also have "\<dots> = m(fst kv \<mapsto> snd kv) ++ map_of (rev kvs)"
    by (rule Cons.IH)
  also have "\<dots> = m ++ map_of (rev (kv # kvs))"
    by (cases kv) simp
  finally show ?case .
qed

text \<open>The raw map of an object holds, under each name, the last member of that name.\<close>

lemma Unmarshal_raw_object:
  "Unmarshal decode_raw (Some (JObject kvs)) Map.empty = (map_of (rev kvs), None)"
  by (simp only: Unmarshal_def decode_raw_def foldl_raw option.case json.case fst_conv snd_conv
      empty_map_add)

lemma map_of_rev_None: "map_of (rev kvs) k = None \<longleftrightarrow> k \<notin> fst ` set kvs"
  by (simp add: map_of_eq_None_iff)

text \<open>Only an object has members: a raw map with a member comes from an object.\<close>

lemma raw_member_object:
  assumes "Unmarshal decode_raw jsn Map.empty = (raw, None)" and "raw k = Some v"
  shows "\<exists>kvs. jsn = Some (JObject kvs) \<and> map_of (rev kvs) k = Some v"
proof (cases jsn)
  case None
  with assms show ?thesis by (simp add: Unmarshal_def)
next
  case (Some d)
  show ?thesis
  proof (cases d)
    case (JObject kvs)
    with Some assms Unmarshal_raw_object [of kvs] show ?thesis by simp
  qed (use Some assms in \<open>auto simp: Unmarshal_def decode_raw_def saveError_def\<close>)
qed

text \<open>The \<open>error\<close> member decodes to \<open>b\<close> iff it is the boolean \<open>b\<close>, or \<open>null\<close> and \<open>b\<close> is false.\<close>

lemma decodes_to_bool:
  "Unmarshal decode_bool (Some err) False = (b, None) \<longleftrightarrow> (err = JBool b \<or> (err = JNull \<and> \<not> b))"
  by (cases err) (auto simp: Unmarshal_def decode_bool_def saveError_def)

lemma ParseResponse_not_error:
  assumes "map_of (rev kvs) ''error'' = Some err"
      and "Unmarshal decode_bool (Some err) False = (False, None)"
  shows "ParseResponse (Some (JObject kvs)) =
           (if ''amount'' \<in> fst ` set kvs then
              (case Unmarshal decode_Jokes (Some (JObject kvs)) zero_Jokes of
                 (jokes, None) \<Rightarrow> (Jokes jokes, None)
               | (jokes, Some e) \<Rightarrow> (None, Some (JSONError e)))
            else
              (case Unmarshal decode_Joke (Some (JObject kvs)) zero_Joke of
                 (joke, None) \<Rightarrow> (Some [joke], None)
               | (joke, Some e) \<Rightarrow> (None, Some (JSONError e))))"
proof (cases "''amount'' \<in> fst ` set kvs")
  case True
  then have "map_of (rev kvs) ''amount'' \<noteq> None"
    using map_of_rev_None [of kvs "''amount''"] by simp
  with assms True show ?thesis
    by (simp add: ParseResponse_def Unmarshal_raw_object)
next
  case False
  then have "map_of (rev kvs) ''amount'' = None"
    using map_of_rev_None [of kvs "''amount''"] by simp
  with assms False show ?thesis
    by (simp add: ParseResponse_def Unmarshal_raw_object)
qed

lemma ParseResponse_is_error:
  assumes "map_of (rev kvs) ''error'' = Some err"
      and "Unmarshal decode_bool (Some err) False = (True, None)"
  shows "ParseResponse (Some (JObject kvs)) =
           (case Unmarshal decode_ErrorResponse (Some (JObject kvs)) zero_ErrorResponse of
              (er, None) \<Rightarrow> (None, Some (APIError er))
            | (er, Some e) \<Rightarrow> (None, Some (JSONError e)))"
  using assms by (simp add: ParseResponse_def Unmarshal_raw_object)

subsection \<open>A recorded type error stays recorded\<close>

lemma decode_bool_keeps: "snd (decode_bool v (t, Some e)) = Some e"
  by (cases v) (simp_all add: decode_bool_def saveError_def)

lemma decode_string_keeps: "snd (decode_string ty v (t, Some e)) = Some e"
  by (cases v) (simp_all add: decode_string_def saveError_def)

lemma decode_int_keeps: "snd (decode_int v (t, Some e)) = Some e"
  by (cases v) (simp_all add: decode_int_def saveError_def split: option.split)

lemma decode_elems_keeps:
  assumes "\<And>x t. snd (dec x (t, Some e)) = Some e"
  shows "snd (decode_elems zero dec xs old (Some e)) = Some e"
  using assms by (induction xs arbitrary: old) (simp_all add: Let_def)

lemma decode_slice_keeps:
  assumes "\<And>x t. snd (dec x (t, Some e)) = Some e"
  shows "snd (decode_slice ty zero dec v (t, Some e)) = Some e"
  using decode_elems_keeps [of dec e, OF assms]
  by (cases v) (simp_all add: decode_slice_def saveError_def Let_def)

lemma decode_ErrorResponse_member_keeps:
  "snd (decode_ErrorResponse_member (er, Some e) kv) = Some e"
  using decode_slice_keeps [of "decode_string ''string''" e, OF decode_string_keeps]
  by (simp add: decode_ErrorResponse_member_def Let_def decode_bool_keeps decode_string_keeps
      decode_int_keeps split: option.split)

lemma foldl_ErrorResponse_keeps:
  "snd st = Some e \<Longrightarrow> snd (foldl decode_ErrorResponse_member st kvs) = Some e"
proof (induction kvs arbitrary: st)
  case Nil
  then show ?case by simp
next
  case (Cons kv kvs)
  from Cons.prems have "snd (decode_ErrorResponse_member st kv) = Some e"
    using decode_ErrorResponse_member_keeps [of "fst st" e kv] by (cases st) simp
  then show ?case
    using Cons.IH by simp
qed

lemma find_field_code: "find_field ErrorResponse_fields ''code'' = Some ''code''"
  by (simp add: find_field_def ErrorResponse_fields_def)

lemma member_code_string:
  "snd (decode_ErrorResponse_member (er, None) (''code'', JString s))
     = Some (UnmarshalTypeError ''string'' ''int'')"
  by (simp add: decode_ErrorResponse_member_def find_field_code Let_def decode_int_def
      saveError_def)

lemma member_code_string_fails:
  "snd (decode_ErrorResponse_member st (''code'', JString s)) \<noteq> None"
proof (cases st)
  case (Pair er saved)
  then show ?thesis
    using member_code_string [of er s] decode_ErrorResponse_member_keeps [of er _ "(''code'', JString s)"]
    by (cases saved) simp_all
qed

lemma code_string_fails:
  "(''code'', JString s) \<in> set kvs \<Longrightarrow>
     snd (foldl decode_ErrorResponse_member st kvs) \<noteq> None"
proof (induction kvs arbitrary: st)
  case Nil
  then show ?case by simp
next
  case (Cons kv kvs)
  show ?case
  proof (cases "kv = (''code'', JString s)")
    case True
    obtain e where "snd (decode_ErrorResponse_member st kv) = Some e"
      using member_code_string_fails [of st s] True by auto
    then show ?thesis
      using foldl_ErrorResponse_keeps [of "decode_ErrorResponse_member st kv" e kvs] by simp
  next
    case False
    with Cons.prems have "(''code'', JString s) \<in> set kvs" by simp
    then show ?thesis
      using Cons.IH by simp
  qed
qed

lemma Unmarshal_ErrorResponse_code_string:
  "(''code'', JString s) \<in> set kvs \<Longrightarrow>
     snd (Unmarshal decode_ErrorResponse (Some (JObject kvs)) zero_ErrorResponse) \<noteq> None"
  using code_string_fails [of s kvs "(zero_ErrorResponse, None)"]
  by (simp add: Unmarshal_def decode_ErrorResponse_def)

subsection \<open>The list wrapper with one \<open>jokes\<close> member\<close>

lemma foldl_Jokes_skip:
  "\<forall>kv\<in>set kvs. find_field [''jokes''] (fst kv) = None \<Longrightarrow>
     foldl decode_Jokes_member st kvs = st"
  by (induction kvs arbitrary: st) (simp_all add: decode_Jokes_member_def)

lemma decode_elems_fresh:
  "\<forall>x\<in>set xs. snd (dec x (zero, None)) = None \<Longrightarrow>
     decode_elems zero dec xs [] None = (map (\<lambda>x. fst (dec x (zero, None))) xs, None)"
  by (induction xs) (simp_all add: Let_def)

lemma find_field_jokes: "find_field [''jokes''] ''jokes'' = Some ''jokes''"
  by (simp add: find_field_def)

lemma Unmarshal_Jokes_member:
  assumes "\<forall>kv\<in>set (pre @ post). find_field [''jokes''] (fst kv) = None"
      and "\<forall>x\<in>set xs. snd (decode_Joke x (zero_Joke, None)) = None"
  shows "Unmarshal decode_Jokes (Some (JObject (pre @ [(''jokes'', JArray xs)] @ post))) zero_Jokes
           = (\<lparr>Jokes = Some (map (\<lambda>x. fst (decode_Joke x (zero_Joke, None))) xs)\<rparr>, None)"
proof -
  from assms(1) have pre: "\<forall>kv\<in>set pre. find_field [''jokes''] (fst kv) = None"
    and post: "\<forall>kv\<in>set post. find_field [''jokes''] (fst kv) = None"
    by simp_all
  have mid: "decode_Jokes_member (zero_Jokes, None) (''jokes'', JArray xs)
      = (\<lparr>Jokes = Some (map (\<lambda>x. fst (decode_Joke x (zero_Joke, None))) xs)\<rparr>, None)"
    using decode_elems_fresh [of xs decode_Joke zero_Joke] assms(2)
    by (simp add: decode_Jokes_member_def find_field_jokes decode_slice_def zero_Jokes_def Let_def)
  show ?thesis
    by (simp add: Unmarshal_def decode_Jokes_def foldl_Jokes_skip [OF pre] mid
        foldl_Jokes_skip [OF post])
qed

subsection \<open>The message and the additional information of a decoded error response\<close>

lemma member_Message:
  "Message (fst (decode_ErrorResponse_member st kv)) =
     (if find_field ErrorResponse_fields (fst kv) = Some ''message''
      then fst (decode_string ''string'' (snd kv) (Message (fst st), snd st))
      else Message (fst st))"
  by (simp add: decode_ErrorResponse_member_def Let_def split: option.split)

lemma member_Info:
  "Info (fst (decode_ErrorResponse_member st kv)) =
     (if find_field ErrorResponse_fields (fst kv) = Some ''additionalInfo''
      then fst (decode_string ''string'' (snd kv) (Info (fst st), snd st))
      else Info (fst st))"
  by (simp add: decode_ErrorResponse_member_def Let_def split: option.split)

lemma decode_string_JString: "fst (decode_string ty (JString s) st) = s"
  by (simp add: decode_string_def)

lemma foldl_Message:
  "\<forall>kv\<in>set kvs. find_field ErrorResponse_fields (fst kv) = Some ''message'' \<longrightarrow> snd kv = JString m \<Longrightarrow>
     Message (fst (foldl decode_ErrorResponse_member st kvs)) =
       (if \<exists>kv\<in>set kvs. find_field ErrorResponse_fields (fst kv) = Some ''message'' then m
        else Message (fst st))"
proof (induction kvs arbitrary: st)
  case Nil
  then show ?case by simp
next
  case (Cons kv kvs)
  from Cons.prems have rest:
      "\<forall>kv\<in>set kvs. find_field ErrorResponse_fields (fst kv) = Some ''message'' \<longrightarrow> snd kv = JString m"
    by simp
  show ?case
  proof (cases "find_field ErrorResponse_fields (fst kv) = Some ''message''")
    case True
    with Cons.prems have "snd kv = JString m" by simp
    with True have "Message (fst (decode_ErrorResponse_member st kv)) = m"
      by (simp add: member_Message decode_string_JString)
    with True Cons.IH [OF rest, of "decode_ErrorResponse_member st kv"] show ?thesis
      by simp
  next
    case False
    then have "Message (fst (decode_ErrorResponse_member st kv)) = Message (fst st)"
      by (simp add: member_Message)
    with False Cons.IH [OF rest, of "decode_ErrorResponse_member st kv"] show ?thesis
      by simp
  qed
qed

lemma foldl_Info:
  "\<forall>kv\<in>set kvs. find_field ErrorResponse_fields (fst kv) = Some ''additionalInfo'' \<longrightarrow> snd kv = JString i \<Longrightarrow>
     Info (fst (foldl decode_ErrorResponse_member st kvs)) =
       (if \<exists>kv\<in>set kvs. find_field ErrorResponse_fields (fst kv) = Some ''additionalInfo'' then i
        else Info (fst st))"
proof (induction kvs arbitrary: st)
  case Nil
  then show ?case by simp
next
  case (Cons kv kvs)
  from Cons.prems have rest:
      "\<forall>kv\<in>set kvs. find_field ErrorResponse_fields (fst kv) = Some ''additionalInfo'' \<longrightarrow> snd kv = JString i"
    by simp
  show ?case
  proof (cases "find_field ErrorResponse_fields (fst kv) = Some ''additionalInfo''")
    case True
    with Cons.prems have "snd kv = JString i" by simp
    with True have "Info (fst (decode_ErrorResponse_member st kv)) = i"
      by (simp add: member_Info decode_string_JString)
    with True Cons.IH [OF rest, of "decode_ErrorResponse_member st kv"] show ?thesis
      by simp
  next
    case False
    then have "Info (fst (decode_ErrorResponse_member st kv)) = Info (fst st)"
      by (simp add: member_Info)
    with False Cons.IH [OF rest, of "decode_ErrorResponse_member st kv"] show ?thesis
      by simp
  qed
qed

lemma find_field_message:
  "find_field ErrorResponse_fields ''message'' = Some ''message''"
  "find_field ErrorResponse_fields ''additionalInfo'' = Some ''additionalInfo''"
  by (simp_all add: find_field_def ErrorResponse_fields_def)

lemma Unmarshal_ErrorResponse_text:
  assumes "Unmarshal decode_ErrorResponse (Some (JObject kvs)) zero_ErrorResponse = (er, saved)"
      and "(''message'', JString m) \<in> set kvs"
      and "(''additionalInfo'', JString i) \<in> set kvs"
      and "\<forall>kv\<in>set kvs. find_field ErrorResponse_fields (fst kv) = Some ''message'' \<longrightarrow> snd kv = JString m"
      and "\<forall>kv\<in>set kvs. find_field ErrorResponse_fields (fst kv) = Some ''additionalInfo'' \<longrightarrow> snd kv = JString i"
  shows "ErrorResponse_Error er = m @ '': '' @ i"
proof -
  from assms(1) have er: "er = fst (foldl decode_ErrorResponse_member (zero_ErrorResponse, None) kvs)"
    by (simp add: Unmarshal_def decode_ErrorResponse_def)
  from assms(2) have "\<exists>kv\<in>set kvs. find_field ErrorResponse_fields (fst kv) = Some ''message''"
    using find_field_message(1) by force
  with foldl_Message [OF assms(4), of "(zero_ErrorResponse, None)"] er have "Message er = m"
    by simp
  moreover from assms(3)
  have "\<exists>kv\<in>set kvs. find_field ErrorResponse_fields (fst kv) = Some ''additionalInfo''"
    using find_field_message(2) by force
  with foldl_Info [OF assms(5), of "(zero_ErrorResponse, None)"] er have "Info er = i"
    by simp
  ultimately show ?thesis
    by (simp add: ErrorResponse_Error_def)
qed

subsection \<open>The outcomes of \<open>ParseResponse\<close>\<close>

text \<open>
  Claim C5. For every JSON object without a member named \<open>error\<close>, \<open>ParseResponse\<close> fails
  with the error \<open>response has no "error" property\<close> and returns no jokes.
\<close>

theorem ParseResponse_missing_error:
  "''error'' \<notin> fst ` set kvs \<Longrightarrow>
     ParseResponse (Some (JObject kvs)) = (None, Some (ErrorString no_error_property))"
proof -
  assume "''error'' \<notin> fst ` set kvs"
  then have "map_of (rev kvs) ''error'' = None"
    using map_of_rev_None [of kvs "''error''"] by simp
  then show ?thesis
    by (simp add: ParseResponse_def Unmarshal_raw_object)
qed

theorem ParseResponse_missing_error_witness:
  "''error'' \<notin> fst ` set [(''joke'', JString ''x''), (''Error'', JBool False)] \<and>
   ParseResponse (Some (JObject [(''joke'', JString ''x''), (''Error'', JBool False)]))
     = (None, Some (ErrorString
          (''response has no '' @ [dquote] @ ''error'' @ [dquote] @ '' property'')))"
  using ParseResponse_missing_error [of "[(''joke'', JString ''x''), (''Error'', JBool False)]"]
  by (simp add: no_error_property_def)

text \<open>
  Claim C1 as stated (for every object whose \<open>error\<close> member decodes to false the result
  is the joke sequence) fails when the payload does not decode: an \<open>id\<close> that is a
  string, or a \<open>jokes\<close> member that is a string, gives the type error of the decoder
  and no joke sequence.
\<close>

theorem ParseResponse_undecodable_jokes:
  "ParseResponse (Some (JObject [(''error'', JBool False), (''id'', JString ''x'')]))
     = (None, Some (JSONError (UnmarshalTypeError ''string'' ''int''))) \<and>
   ParseResponse (Some (JObject [(''error'', JBool False), (''amount'', JNumber ''2''),
                                 (''jokes'', JString ''none'')]))
     = (None, Some (JSONError (UnmarshalTypeError ''string'' ''[]jokes.Joke'')))"
  by code_simp

text \<open>
  Claim C1, amended. For every JSON object whose \<open>error\<close> member decodes to false: if a
  member named \<open>amount\<close> is present and the payload decodes as the list wrapper without
  a type error, \<open>ParseResponse\<close> returns the sequence of jokes decoded from the \<open>jokes\<close>
  member and no error; if no member named \<open>amount\<close> is present and the payload decodes
  as a single joke without a type error, it returns the one-element sequence of that
  joke and no error; when the payload does not decode, it returns the decoder's error
  and no joke sequence. With one member \<open>jokes\<close> that is an array, and no other member
  whose name matches \<open>jokes\<close>, the sequence is the array's elements, each decoded as a
  joke, in order.
\<close>

theorem ParseResponse_jokes:
  assumes "map_of (rev kvs) ''error'' = Some err"
      and "Unmarshal decode_bool (Some err) False = (False, None)"
  shows "(''amount'' \<in> fst ` set kvs \<longrightarrow>
            ParseResponse (Some (JObject kvs)) =
              (case Unmarshal decode_Jokes (Some (JObject kvs)) zero_Jokes of
                 (jokes, None) \<Rightarrow> (Jokes jokes, None)
               | (jokes, Some e) \<Rightarrow> (None, Some (JSONError e)))) \<and>
         (''amount'' \<notin> fst ` set kvs \<longrightarrow>
            ParseResponse (Some (JObject kvs)) =
              (case Unmarshal decode_Joke (Some (JObject kvs)) zero_Joke of
                 (joke, None) \<Rightarrow> (Some [joke], None)
               | (joke, Some e) \<Rightarrow> (None, Some (JSONError e)))) \<and>
         (''amount'' \<in> fst ` set kvs \<and> kvs = pre @ [(''jokes'', JArray xs)] @ post \<and>
          (\<forall>kv\<in>set (pre @ post). find_field [''jokes''] (fst kv) = None) \<and>
          (\<forall>x\<in>set xs. snd (decode_Joke x (zero_Joke, None)) = None) \<longrightarrow>
            ParseResponse (Some (JObject kvs)) =
              (Some (map (\<lambda>x. fst (decode_Joke x (zero_Joke, None))) xs), None))"
proof -
  note split = ParseResponse_not_error [OF assms]
  have "''amount'' \<in> fst ` set kvs \<and> kvs = pre @ [(''jokes'', JArray xs)] @ post \<and>
          (\<forall>kv\<in>set (pre @ post). find_field [''jokes''] (fst kv) = None) \<and>
          (\<forall>x\<in>set xs. snd (decode_Joke x (zero_Joke, None)) = None) \<longrightarrow>
            ParseResponse (Some (JObject kvs)) =
              (Some (map (\<lambda>x. fst (decode_Joke x (zero_Joke, None))) xs), None)"
  proof (intro impI, elim conjE)
    assume a: "''amount'' \<in> fst ` set kvs"
      and k: "kvs = pre @ [(''jokes'', JArray xs)] @ post"
      and o: "\<forall>kv\<in>set (pre @ post). find_field [''jokes''] (fst kv) = None"
      and x: "\<forall>x\<in>set xs. snd (decode_Joke x (zero_Joke, None)) = None"
    have "Unmarshal decode_Jokes (Some (JObject kvs)) zero_Jokes
            = (\<lparr>Jokes = Some (map (\<lambda>x. fst (decode_Joke x (zero_Joke, None))) xs)\<rparr>, None)"
      unfolding k using o x by (rule Unmarshal_Jokes_member)
    with split a show "ParseResponse (Some (JObject kvs)) =
              (Some (map (\<lambda>x. fst (decode_Joke x (zero_Joke, None))) xs), None)"
      by simp
  qed
  with split show ?thesis by simp
qed

theorem ParseResponse_jokes_witness:
  "ParseResponse (Some (JObject
      [(''error'', JBool False), (''category'', JString ''Pun''), (''type'', JString ''single''),
       (''joke'', JString ''x''), (''flags'', JObject [(''nsfw'', JBool False)]),
       (''id'', JNumber ''5''), (''safe'', JBool True), (''lang'', JString ''en'')]))
     = (Some [\<lparr>Category = ''Pun'', Delivery = [], Flags = Some [(''nsfw'', False)], JokeId = 5,
               Joke = ''x'', Lang = ''en'', Safe = True, Setup = [], Type = ''single''\<rparr>], None) \<and>
   ParseResponse (Some (JObject
      [(''error'', JBool False), (''amount'', JNumber ''2''),
       (''jokes'', JArray [JObject [(''joke'', JString ''a''), (''id'', JNumber ''1'')],
                           JObject [(''setup'', JString ''s''), (''delivery'', JString ''d''),
                                    (''type'', JString ''twopart'')]])]))
     = (Some [zero_Joke\<lparr>JokeId := 1, Joke := ''a''\<rparr>,
              zero_Joke\<lparr>Delivery := ''d'', Setup := ''s'', Type := ''twopart''\<rparr>], None) \<and>
   ParseResponse (Some (JObject
      [(''error'', JNull), (''amount'', JNumber ''1''), (''jokes'', JArray [])]))
     = (Some [], None)"
proof -
  let ?single = "[(''error'', JBool False), (''category'', JString ''Pun''),
       (''type'', JString ''single''), (''joke'', JString ''x''),
       (''flags'', JObject [(''nsfw'', JBool False)]),
       (''id'', JNumber ''5''), (''safe'', JBool True), (''lang'', JString ''en'')]"
  let ?j1 = "JObject [(''joke'', JString ''a''), (''id'', JNumber ''1'')]"
  let ?j2 = "JObject [(''setup'', JString ''s''), (''delivery'', JString ''d''),
                      (''type'', JString ''twopart'')]"
  let ?pre = "[(''error'', JBool False), (''amount'', JNumber ''2'')]"
  let ?multi = "?pre @ [(''jokes'', JArray [?j1, ?j2])] @ []"
  let ?empty = "[(''error'', JNull), (''amount'', JNumber ''1''), (''jokes'', JArray [])]"
  have b: "Unmarshal decode_bool (Some (JBool False)) False = (False, None)"
      "Unmarshal decode_bool (Some JNull) False = (False, None)"
    by (simp_all add: Unmarshal_def decode_bool_def)
  have e1: "map_of (rev ?single) ''error'' = Some (JBool False)" by simp
  have e2: "map_of (rev ?multi) ''error'' = Some (JBool False)" by simp
  have e3: "map_of (rev ?empty) ''error'' = Some JNull" by simp
  have a1: "''amount'' \<notin> fst ` set ?single" by simp
  have a2: "''amount'' \<in> fst ` set ?multi" by simp
  have a3: "''amount'' \<in> fst ` set ?empty" by simp
  have d1: "Unmarshal decode_Joke (Some (JObject ?single)) zero_Joke
      = (\<lparr>Category = ''Pun'', Delivery = [], Flags = Some [(''nsfw'', False)], JokeId = 5,
          Joke = ''x'', Lang = ''en'', Safe = True, Setup = [], Type = ''single''\<rparr>, None)"
    by code_simp
  have o: "\<forall>kv\<in>set (?pre @ []). find_field [''jokes''] (fst kv) = None"
    by code_simp
  have x: "\<forall>x\<in>set [?j1, ?j2]. snd (decode_Joke x (zero_Joke, None)) = None"
    by code_simp
  have m: "map (\<lambda>x. fst (decode_Joke x (zero_Joke, None))) [?j1, ?j2]
      = [zero_Joke\<lparr>JokeId := 1, Joke := ''a''\<rparr>,
         zero_Joke\<lparr>Delivery := ''d'', Setup := ''s'', Type := ''twopart''\<rparr>]"
    by code_simp
  have d3: "Unmarshal decode_Jokes (Some (JObject ?empty)) zero_Jokes = (\<lparr>Jokes = Some []\<rparr>, None)"
    by code_simp
  note t1 = ParseResponse_jokes [OF e1 b(1), THEN conjunct2, THEN conjunct1]
  note t2 = ParseResponse_jokes [where pre = ?pre and xs = "[?j1, ?j2]" and post = "[]",
      OF e2 b(1), THEN conjunct2, THEN conjunct2]
  note t3 = ParseResponse_jokes [OF e3 b(2), THEN conjunct1]
  from t1 a1 d1
  have "ParseResponse (Some (JObject ?single))
     = (Some [\<lparr>Category = ''Pun'', Delivery = [], Flags = Some [(''nsfw'', False)], JokeId = 5,
               Joke = ''x'', Lang = ''en'', Safe = True, Setup = [], Type = ''single''\<rparr>], None)"
    by simp
  moreover from t2 a2 o x
  have "ParseResponse (Some (JObject ?multi))
     = (Some (map (\<lambda>x. fst (decode_Joke x (zero_Joke, None))) [?j1, ?j2]), None)"
    by blast
  then have "ParseResponse (Some (JObject ?multi))
     = (Some [zero_Joke\<lparr>JokeId := 1, Joke := ''a''\<rparr>,
              zero_Joke\<lparr>Delivery := ''d'', Setup := ''s'', Type := ''twopart''\<rparr>], None)"
    by (simp only: m)
  moreover from t3 a3 d3
  have "ParseResponse (Some (JObject ?empty)) = (Some [], None)"
    by simp
  ultimately show ?thesis by simp
qed

text \<open>
  Claim C2 as stated (for every input whose \<open>error\<close> member decodes to true the result
  is the \<open>ErrorResponse\<close> as a typed error) fails when the payload does not decode as
  an \<open>ErrorResponse\<close>: with a \<open>message\<close> that is a number the result is the type error
  of the decoder.
\<close>

theorem ParseResponse_undecodable_error:
  "ParseResponse (Some (JObject [(''error'', JBool True), (''message'', JNumber ''5''),
                                 (''additionalInfo'', JString ''i'')]))
     = (None, Some (JSONError (UnmarshalTypeError ''number'' ''string'')))"
  by code_simp

text \<open>
  Claim C2, amended. For every input whose \<open>error\<close> member decodes to true and whose
  payload decodes as an \<open>ErrorResponse\<close> without a type error, \<open>ParseResponse\<close> returns
  that \<open>ErrorResponse\<close> as a typed error and no joke sequence, and the string form of
  the error is the message, a colon and a space, and the additional information: \<open>m: i\<close>
  when the payload has the members \<open>message\<close> with the string \<open>m\<close> and \<open>additionalInfo\<close>
  with the string \<open>i\<close>, and every other member that goes to these two fields carries the
  same strings.
\<close>

theorem ParseResponse_error_response:
  assumes "map_of (rev kvs) ''error'' = Some err"
      and "Unmarshal decode_bool (Some err) False = (True, None)"
      and "Unmarshal decode_ErrorResponse (Some (JObject kvs)) zero_ErrorResponse = (er, None)"
  shows "ParseResponse (Some (JObject kvs)) = (None, Some (APIError er)) \<and>
         ErrorResponse_Error er = Message er @ '': '' @ Info er \<and>
         ((''message'', JString m) \<in> set kvs \<and> (''additionalInfo'', JString i) \<in> set kvs \<and>
          (\<forall>kv\<in>set kvs. find_field ErrorResponse_fields (fst kv) = Some ''message''
                        \<longrightarrow> snd kv = JString m) \<and>
          (\<forall>kv\<in>set kvs. find_field ErrorResponse_fields (fst kv) = Some ''additionalInfo''
                        \<longrightarrow> snd kv = JString i) \<longrightarrow>
            ErrorResponse_Error er = m @ '': '' @ i)"
  using ParseResponse_is_error [OF assms(1,2)] assms(3) Unmarshal_ErrorResponse_text [OF assms(3)]
  by (simp add: ErrorResponse_Error_def)

theorem ParseResponse_error_response_witness:
  "ParseResponse (Some (JObject
      [(''error'', JBool True), (''internalError'', JBool False), (''code'', JNumber ''106''),
       (''message'', JString ''m''), (''causedBy'', JArray [JString ''c'']),
       (''additionalInfo'', JString ''i''), (''timestamp'', JNumber ''1579170794412'')]))
     = (None, Some (APIError \<lparr>Cause = Some [''c''], Code = 106, Info = ''i'', Internal = False,
                              Message = ''m'', Time = 1579170794412\<rparr>)) \<and>
   ErrorResponse_Error \<lparr>Cause = Some [''c''], Code = 106, Info = ''i'', Internal = False,
                        Message = ''m'', Time = 1579170794412\<rparr> = ''m: i''"
proof -
  let ?doc = "[(''error'', JBool True), (''internalError'', JBool False), (''code'', JNumber ''106''),
       (''message'', JString ''m''), (''causedBy'', JArray [JString ''c'']),
       (''additionalInfo'', JString ''i''), (''timestamp'', JNumber ''1579170794412'')]"
  let ?er = "\<lparr>Cause = Some [''c''], Code = 106, Info = ''i'', Internal = False,
              Message = ''m'', Time = 1579170794412\<rparr>"
  have b: "Unmarshal decode_bool (Some (JBool True)) False = (True, None)"
    by (simp add: Unmarshal_def decode_bool_def)
  have e: "map_of (rev ?doc) ''error'' = Some (JBool True)" by simp
  have d: "Unmarshal decode_ErrorResponse (Some (JObject ?doc)) zero_ErrorResponse = (?er, None)"
    by code_simp
  have m: "(''message'', JString ''m'') \<in> set ?doc" "(''additionalInfo'', JString ''i'') \<in> set ?doc"
    by simp_all
  have o: "\<forall>kv\<in>set ?doc. find_field ErrorResponse_fields (fst kv) = Some ''message''
                        \<longrightarrow> snd kv = JString ''m''"
      "\<forall>kv\<in>set ?doc. find_field ErrorResponse_fields (fst kv) = Some ''additionalInfo''
                        \<longrightarrow> snd kv = JString ''i''"
    by code_simp+
  note t = ParseResponse_error_response [where m = "''m''" and i = "''i''", OF e b d]
  from t have "ParseResponse (Some (JObject ?doc)) = (None, Some (APIError ?er))"
    by blast
  moreover from t m o have "ErrorResponse_Error ?er = ''m'' @ '': '' @ ''i''"
    by blast
  ultimately show ?thesis by simp
qed

text \<open>
  Claim C10. For every input whose \<open>error\<close> member decodes to true but whose payload
  fails to decode as an \<open>ErrorResponse\<close>, \<open>ParseResponse\<close> returns the error of the JSON
  decoder, not an \<open>ErrorResponse\<close>, and no joke sequence. A \<open>code\<close> member that is a
  string is such a payload.
\<close>

theorem ParseResponse_error_decode_failure:
  assumes "map_of (rev kvs) ''error'' = Some err"
      and "Unmarshal decode_bool (Some err) False = (True, None)"
  shows "(Unmarshal decode_ErrorResponse (Some (JObject kvs)) zero_ErrorResponse = (er, Some e) \<longrightarrow>
            ParseResponse (Some (JObject kvs)) = (None, Some (JSONError e)) \<and>
            snd (ParseResponse (Some (JObject kvs))) \<noteq> Some (APIError x)) \<and>
         ((''code'', JString s) \<in> set kvs \<longrightarrow>
            (\<exists>e'. ParseResponse (Some (JObject kvs)) = (None, Some (JSONError e'))))"
proof -
  have first: "Unmarshal decode_ErrorResponse (Some (JObject kvs)) zero_ErrorResponse = (er, Some e) \<longrightarrow>
            ParseResponse (Some (JObject kvs)) = (None, Some (JSONError e)) \<and>
            snd (ParseResponse (Some (JObject kvs))) \<noteq> Some (APIError x)"
    using ParseResponse_is_error [OF assms] by simp
  have second: "(''code'', JString s) \<in> set kvs \<longrightarrow>
            (\<exists>e'. ParseResponse (Some (JObject kvs)) = (None, Some (JSONError e')))"
  proof
    assume "(''code'', JString s) \<in> set kvs"
    then have "snd (Unmarshal decode_ErrorResponse (Some (JObject kvs)) zero_ErrorResponse) \<noteq> None"
      by (rule Unmarshal_ErrorResponse_code_string)
    then obtain er' e' where
        "Unmarshal decode_ErrorResponse (Some (JObject kvs)) zero_ErrorResponse = (er', Some e')"
      by (cases "Unmarshal decode_ErrorResponse (Some (JObject kvs)) zero_ErrorResponse") auto
    then show "\<exists>e'. ParseResponse (Some (JObject kvs)) = (None, Some (JSONError e'))"
      using ParseResponse_is_error [OF assms] by simp
  qed
  from first second show ?thesis by blast
qed

theorem ParseResponse_error_decode_failure_witness:
  "(''code'', JString ''x'') \<in> set [(''error'', JBool True), (''code'', JString ''x'')] \<and>
   ParseResponse (Some (JObject [(''error'', JBool True), (''code'', JString ''x'')]))
     = (None, Some (JSONError (UnmarshalTypeError ''string'' ''int''))) \<and>
   (\<exists>e'. ParseResponse (Some (JObject [(''code'', JString ''y''), (''error'', JBool True),
                                           (''message'', JString ''m'')]))
           = (None, Some (JSONError e')))"
proof -
  let ?doc' = "[(''code'', JString ''y''), (''error'', JBool True), (''message'', JString ''m'')]"
  have e': "map_of (rev ?doc') ''error'' = Some (JBool True)" by simp
  have m: "(''code'', JString ''y'') \<in> set ?doc'" by simp
  let ?doc = "[(''error'', JBool True), (''code'', JString ''x'')]"
  have b: "Unmarshal decode_bool (Some (JBool True)) False = (True, None)"
    by (simp add: Unmarshal_def decode_bool_def)
  have e: "map_of (rev ?doc) ''error'' = Some (JBool True)" by simp
  have d: "Unmarshal decode_ErrorResponse (Some (JObject ?doc)) zero_ErrorResponse
      = (zero_ErrorResponse, Some (UnmarshalTypeError ''string'' ''int''))"
    by code_simp
  from ParseResponse_error_decode_failure [OF e b, THEN conjunct1, of zero_ErrorResponse
      "UnmarshalTypeError ''string'' ''int''"] d
  have "ParseResponse (Some (JObject ?doc))
     = (None, Some (JSONError (UnmarshalTypeError ''string'' ''int'')))"
    by simp
  moreover from ParseResponse_error_decode_failure [OF e' b, THEN conjunct2, of "''y''"] m
  have "\<exists>e'. ParseResponse (Some (JObject ?doc')) = (None, Some (JSONError e'))"
    by blast
  ultimately show ?thesis by simp
qed

end
